theory Spec2Isabelle
  imports Complex_Main "HOL-Library.Log_Nat"
begin

section \<open>Jakarta AQI forecast: the prediction logic of app.py\<close>

text \<open>
  The embedding follows \<^verbatim>\<open>src/app.py\<close>: the prediction loop (lines 61 to 100) and the
  marker colour of the map (line 178). The four slider values are Python integers
  (\<open>int\<close>). Pollutant concentrations, multipliers and AQI values are numpy float64 in the
  script; they are modelled as \<open>real\<close> with exact arithmetic, except for the damping
  factors of line 88, which are also given in binary64 arithmetic (\<open>fl\<close>,
  \<open>linspace64\<close>, \<open>damping64\<close>), because their literal values are at stake there.
  The trained regressor (\<^verbatim>\<open>jakarta_aqi_model.pkl\<close>) is not part of the script; it is the
  parameter \<open>model\<close>, a function from one row of features to one AQI value.
\<close>

subsection \<open>Data\<close>

text \<open>The six pollutant columns, in the order of the column list of line 71.\<close>

record features =
  pm25 :: real
  pm10 :: real
  so2 :: real
  co :: real
  o3 :: real
  no2 :: real

text \<open>
  One row of \<^verbatim>\<open>cleaned_jakarta_aqi.csv\<close>: the pollutant columns and the label column
  \<^verbatim>\<open>stasiun\<close>. The label is \<open>None\<close> where the cell is missing: pandas reads it as NaN.
\<close>

record reading = features +
  stasiun :: "string option"

text \<open>The four sliders of lines 53 to 56.\<close>

record scenario =
  ev_switch :: int
  emission_reg :: int
  green_area :: int
  carbon_capture :: int

text \<open>One dictionary appended to \<^verbatim>\<open>results\<close> (lines 91 to 97).\<close>

record station_result =
  r_stasiun :: "string option"
  latitude :: real
  longitude :: real
  avg_aqi :: real
  predictions :: "real list"

text \<open>What one press of the button leaves behind: the result rows and the warnings shown.\<close>

record outcome =
  results :: "station_result list"
  warnings :: "string list"

subsection \<open>Library functions the script calls\<close>

text \<open>\<^verbatim>\<open>np.arange(a, b)\<close> on integers: \<open>a, a + 1, ..., b - 1\<close>.\<close>

definition arange :: "int \<Rightarrow> int \<Rightarrow> int list" where
  "arange a b = [a..b - 1]"

text \<open>
  \<^verbatim>\<open>np.linspace(start, stop, num)\<close> with the default \<^verbatim>\<open>endpoint=True\<close>, in exact
  arithmetic: the step is \<open>(stop - start) / (num - 1)\<close>, sample \<open>i\<close> is
  \<open>start + i * step\<close> and the last sample is overwritten with \<open>stop\<close>. With \<open>num = 1\<close>
  the only sample is \<open>start\<close>. The binary64 evaluation of the same function is
  \<open>linspace64\<close> below.
\<close>

definition linspace :: "real \<Rightarrow> real \<Rightarrow> nat \<Rightarrow> real list" where
  "linspace start stop num =
     (if num = 0 then []
      else if num = 1 then [start]
      else (map (\<lambda>i. start + real i * ((stop - start) / real (num - 1))) [0..<num])
             [num - 1 := stop])"

text \<open>\<^verbatim>\<open>np.mean\<close> of a one-dimensional array, and the column mean of a data frame.\<close>

definition mean :: "real list \<Rightarrow> real" where
  "mean xs = sum_list xs / real (length xs)"

text \<open>
  \<^verbatim>\<open>Series.unique()\<close>: the distinct values in order of first appearance; all missing
  values count as one value. (\<open>remdups\<close> keeps the last occurrence of each value, hence
  the two reversals.)
\<close>

definition unique :: "'a list \<Rightarrow> 'a list" where
  "unique xs = rev (remdups (rev xs))"

text \<open>
  The comparison \<^verbatim>\<open>df["stasiun"] == station\<close> on one cell: a missing label (NaN) is
  equal to nothing, not even to itself.
\<close>

definition eq_label :: "string option \<Rightarrow> string option \<Rightarrow> bool" where
  "eq_label a b = (case (a, b) of (Some x, Some y) \<Rightarrow> x = y | _ \<Rightarrow> False)"

subsection \<open>Binary64 arithmetic\<close>





subsection \<open>Station coordinates (lines 35 to 41)\<close>

definition station_coords :: "(string \<times> real \<times> real) list" where
  "station_coords =
     [(''DKI1 (Bunderan HI)'', (- 6193 / 1000, 106820 / 1000)),
      (''DKI2 (Kelapa Gading)'', (- 6166 / 1000, 106909 / 1000)),
      (''DKI3 (Jagakarsa)'', (- 6338 / 1000, 106823 / 1000)),
      (''DKI4 (Lubang Buaya)'', (- 6293 / 1000, 106894 / 1000)),
      (''DKI5 (Kebon Jeruk)'', (- 6200 / 1000, 106770 / 1000))]"

text \<open>\<^verbatim>\<open>station_coords.get(station, (-6.2, 106.8))\<close>; a missing label is no key.\<close>

definition coords_get :: "string option \<Rightarrow> real \<times> real" where
  "coords_get station =
     (case station of
        None \<Rightarrow> (- 62 / 10, 1068 / 10)
      | Some s \<Rightarrow> (case map_of station_coords s of
                    None \<Rightarrow> (- 62 / 10, 1068 / 10)
                  | Some c \<Rightarrow> c))"

subsection \<open>Prediction logic (lines 61 to 100)\<close>

definition future_years :: "int list" where
  "future_years = arange 2025 2031"

text \<open>\<^verbatim>\<open>sub = df[df["stasiun"] == station]\<close>\<close>

definition sub_of :: "reading list \<Rightarrow> string option \<Rightarrow> reading list" where
  "sub_of df station = filter (\<lambda>r. eq_label (stasiun r) station) df"

text \<open>\<^verbatim>\<open>sub[["pm25", "pm10", "so2", "co", "o3", "no2"]].mean()\<close>\<close>

definition mean_features :: "reading list \<Rightarrow> features" where
  "mean_features sub =
     \<lparr>pm25 = mean (map pm25 sub), pm10 = mean (map pm10 sub), so2 = mean (map so2 sub),
      co = mean (map co sub), o3 = mean (map o3 sub), no2 = mean (map no2 sub)\<rparr>"

text \<open>The six factors of lines 77 to 82, named after the column they scale.\<close>

definition pm25_factor :: "scenario \<Rightarrow> real" where
  "pm25_factor sc = 1 - real_of_int (ev_switch sc + emission_reg sc) / 200"

definition pm10_factor :: "scenario \<Rightarrow> real" where
  "pm10_factor sc = 1 - real_of_int (green_area sc + emission_reg sc) / 220"

definition co_factor :: "scenario \<Rightarrow> real" where
  "co_factor sc = 1 - real_of_int (carbon_capture sc + ev_switch sc) / 250"

definition no2_factor :: "scenario \<Rightarrow> real" where
  "no2_factor sc = 1 - real_of_int (emission_reg sc + ev_switch sc) / 180"

definition so2_factor :: "scenario \<Rightarrow> real" where
  "so2_factor sc = 1 - real_of_int (carbon_capture sc + emission_reg sc) / 230"

definition o3_factor :: "scenario \<Rightarrow> real" where
  "o3_factor sc = 1 - real_of_int (green_area sc) / 200"

text \<open>
  Lines 74 to 82: one copy of the mean row per future year, then six in-place column
  multiplications, in the order of the script.
\<close>

definition X_future :: "scenario \<Rightarrow> features \<Rightarrow> features list" where
  "X_future sc m =
     (let X = replicate (length future_years) m;
          X = map (pm25_update (\<lambda>v. v * pm25_factor sc)) X;
          X = map (pm10_update (\<lambda>v. v * pm10_factor sc)) X;
          X = map (co_update (\<lambda>v. v * co_factor sc)) X;
          X = map (no2_update (\<lambda>v. v * no2_factor sc)) X;
          X = map (so2_update (\<lambda>v. v * so2_factor sc)) X;
          X = map (o3_update (\<lambda>v. v * o3_factor sc)) X
      in X)"

text \<open>\<^verbatim>\<open>model.predict(X_future)\<close>: one prediction per row.\<close>

definition base_pred :: "(features \<Rightarrow> real) \<Rightarrow> features list \<Rightarrow> real list" where
  "base_pred model X = map model X"

text \<open>Line 88: \<^verbatim>\<open>base_pred * np.linspace(1, 0.85, len(base_pred))\<close>, element by element.\<close>

definition damping :: "nat \<Rightarrow> real list" where
  "damping n = linspace 1 (85 / 100) n"


definition adjusted_pred :: "real list \<Rightarrow> real list" where
  "adjusted_pred bp = map2 (*) bp (damping (length bp))"

definition warning_text :: "string option \<Rightarrow> string" where
  "warning_text station =
     ''No data for '' @ (case station of None \<Rightarrow> ''nan'' | Some s \<Rightarrow> s) @ ''. Skipping.''"

text \<open>The dictionary built for a station that has rows (lines 71 to 97).\<close>

definition station_forecast ::
  "scenario \<Rightarrow> (features \<Rightarrow> real) \<Rightarrow> string option \<Rightarrow> reading list \<Rightarrow> station_result" where
  "station_forecast sc model station sub =
     (let ap = adjusted_pred (base_pred model (X_future sc (mean_features sub)))
      in \<lparr>r_stasiun = station, latitude = fst (coords_get station),
          longitude = snd (coords_get station), avg_aqi = mean ap, predictions = ap\<rparr>)"

text \<open>
  The \<^verbatim>\<open>for station in ...\<close> loop of line 65 over a list of labels; the state is the
  list \<^verbatim>\<open>results\<close> and the warnings shown so far. An empty selection warns and continues.
\<close>

fun predict_loop ::
  "scenario \<Rightarrow> (features \<Rightarrow> real) \<Rightarrow> reading list \<Rightarrow> string option list \<Rightarrow> outcome \<Rightarrow> outcome" where
  "predict_loop sc model df [] st = st"
| "predict_loop sc model df (station # rest) st =
     (let sub = sub_of df station
      in if sub = []
         then predict_loop sc model df rest (st\<lparr>warnings := warnings st @ [warning_text station]\<rparr>)
         else predict_loop sc model df rest
                (st\<lparr>results := results st @ [station_forecast sc model station sub]\<rparr>))"

text \<open>The body of the button: the loop over \<^verbatim>\<open>df["stasiun"].unique()\<close> from empty results.\<close>

definition predict_future_aqi :: "scenario \<Rightarrow> (features \<Rightarrow> real) \<Rightarrow> reading list \<Rightarrow> outcome" where
  "predict_future_aqi sc model df =
     predict_loop sc model df (unique (map stasiun df)) \<lparr>results = [], warnings = []\<rparr>"

subsection \<open>Scenario sliders (lines 53 to 56)\<close>

text \<open>
  Each slider is created with minimum 0 and maximum 100, so these are the values the
  prediction logic receives from the page. The prediction logic itself does not look at
  the bounds.
\<close>

definition slider_value :: "int \<Rightarrow> bool" where
  "slider_value v = (0 \<le> v \<and> v \<le> 100)"

definition slider_scenario :: "scenario \<Rightarrow> bool" where
  "slider_scenario sc =
     (slider_value (ev_switch sc) \<and> slider_value (emission_reg sc) \<and>
      slider_value (green_area sc) \<and> slider_value (carbon_capture sc))"

subsection \<open>Marker colour (line 178)\<close>

definition color :: "real \<Rightarrow> string" where
  "color year_aqi =
     (if year_aqi < 50 then ''green'' else if year_aqi < 100 then ''orange'' else ''red'')"

subsection \<open>Sample inputs\<close>

text \<open>
  The slider defaults, the neutral scenario, a scenario with both NO2 drivers at the
  maximum, the mean vector of the end-to-end example, a table whose only row belongs to
  DKI1, and a stand-in regressor (the sum of the six features).
\<close>

abbreviation (input) default_scenario :: scenario where
  "default_scenario \<equiv>
     \<lparr>ev_switch = 30, emission_reg = 40, green_area = 25, carbon_capture = 20\<rparr>"

abbreviation (input) neutral_scenario :: scenario where
  "neutral_scenario \<equiv>
     \<lparr>ev_switch = 0, emission_reg = 0, green_area = 0, carbon_capture = 0\<rparr>"

abbreviation (input) strict_scenario :: scenario where
  "strict_scenario \<equiv>
     \<lparr>ev_switch = 100, emission_reg = 100, green_area = 0, carbon_capture = 0\<rparr>"

abbreviation (input) sample_means :: features where
  "sample_means \<equiv> \<lparr>pm25 = 50, pm10 = 40, so2 = 10, co = 5, o3 = 20, no2 = 30\<rparr>"

abbreviation (input) one_station_df :: "reading list" where
  "one_station_df \<equiv>
     [\<lparr>pm25 = 50, pm10 = 40, so2 = 10, co = 5, o3 = 20, no2 = 30,
       stasiun = Some ''DKI1 (Bunderan HI)''\<rparr>]"

abbreviation (input) sum_model :: "features \<Rightarrow> real" where
  "sum_model \<equiv> (\<lambda>r. pm25 r + pm10 r + so2 r + co r + o3 r + no2 r)"

section \<open>Auxiliary facts\<close>

subsection \<open>The feature matrix\<close>

lemmas factor_defs =
  pm25_factor_def pm10_factor_def co_factor_def no2_factor_def so2_factor_def o3_factor_def

lemma future_years_eq: "future_years = [2025, 2026, 2027, 2028, 2029, 2030]"
  by (simp add: future_years_def arange_def upto.simps)

lemma length_future_years: "length future_years = 6"
  by (simp add: future_years_eq)

lemma replicate_6: "replicate 6 x = [x, x, x, x, x, x]"
  by (simp add: numeral_eq_Suc)


lemma X_future_rows:
  "X_future sc m =
     replicate 6 \<lparr>pm25 = pm25 m * pm25_factor sc, pm10 = pm10 m * pm10_factor sc,
                  so2 = so2 m * so2_factor sc, co = co m * co_factor sc,
                  o3 = o3 m * o3_factor sc, no2 = no2 m * no2_factor sc\<rparr>"
  by (simp add: X_future_def Let_def length_future_years)

lemma factors_lower:
  assumes "slider_scenario sc"
  shows "0 \<le> pm25_factor sc" "0 \<le> pm10_factor sc" "0 \<le> co_factor sc"
    "0 \<le> so2_factor sc" "0 \<le> o3_factor sc"
  using assms by (simp_all add: factor_defs slider_scenario_def slider_value_def)

lemma no2_factor_sign: "(0 \<le> no2_factor sc) = (emission_reg sc + ev_switch sc \<le> 180)"
proof -
  have "(0 \<le> no2_factor sc) = (real_of_int (emission_reg sc + ev_switch sc) \<le> 180)"
    by (simp add: no2_factor_def)
  also have "\<dots> = (emission_reg sc + ev_switch sc \<le> 180)"
    by (simp only: of_int_le_numeral_iff)
  finally show ?thesis .
qed

subsection \<open>Damping and one station's forecast\<close>

lemma damping_6: "damping 6 = [1, 97 / 100, 94 / 100, 91 / 100, 88 / 100, 85 / 100]"
  by (simp add: damping_def linspace_def upt_rec_numeral numeral_eq_Suc)

lemma length_linspace: "length (linspace a b n) = n"
  by (simp add: linspace_def)

lemma length_adjusted_pred: "length (adjusted_pred bp) = length bp"
  by (simp add: adjusted_pred_def damping_def length_linspace)

lemma adjusted_pred_6:
  "adjusted_pred [a, b, c, d, e, f] =
     [a * 1, b * (97 / 100), c * (94 / 100), d * (91 / 100), e * (88 / 100), f * (85 / 100)]"
  by (simp add: adjusted_pred_def damping_def linspace_def upt_rec)

lemma base_pred_rows:
  "base_pred model (X_future sc m) = replicate 6 (model (X_future sc m ! 0))"
  by (simp add: base_pred_def X_future_rows)

lemma length_base_pred: "length (base_pred model (X_future sc m)) = 6"
  by (simp add: base_pred_rows)

lemma predictions_station_forecast:
  "predictions (station_forecast sc model station sub) =
     adjusted_pred (base_pred model (X_future sc (mean_features sub)))"
  by (simp add: station_forecast_def Let_def)

lemma avg_aqi_station_forecast:
  "avg_aqi (station_forecast sc model station sub) =
     mean (predictions (station_forecast sc model station sub))"
  by (simp add: station_forecast_def Let_def)

lemma length_predictions: "length (predictions (station_forecast sc model station sub)) = 6"
  by (simp add: predictions_station_forecast length_adjusted_pred length_base_pred)

lemma predictions_damped:
  "predictions (station_forecast sc model station sub) =
     map (\<lambda>f. model (X_future sc (mean_features sub) ! 0) * f) (damping 6)"
proof -
  have "predictions (station_forecast sc model station sub) =
      map2 (*) (base_pred model (X_future sc (mean_features sub))) (damping 6)"
    by (simp only: predictions_station_forecast adjusted_pred_def length_base_pred)
  then show ?thesis
    by (simp add: base_pred_rows damping_6 replicate_6)
qed

subsection \<open>Binary64 rounding\<close>










subsection \<open>Labels and selections\<close>

lemma eq_label_None: "eq_label a None = False"
  by (cases a) (simp_all add: eq_label_def)

lemma eq_label_Some: "eq_label a (Some s) = (a = Some s)"
  by (cases a) (simp_all add: eq_label_def)

lemma sub_of_None: "sub_of df None = []"
  by (simp add: sub_of_def eq_label_None)

lemma sub_of_Some: "sub_of df (Some s) = filter (\<lambda>r. stasiun r = Some s) df"
  by (simp add: sub_of_def eq_label_Some)

lemma sub_of_empty_iff: "s \<in> set (map stasiun df) \<Longrightarrow> (sub_of df s = []) = (s = None)"
  by (cases s) (auto simp: sub_of_None sub_of_Some filter_empty_conv)

lemma set_unique: "set (unique xs) = set xs"
  by (simp add: unique_def)

subsection \<open>The loop\<close>

lemma predict_loop_results:
  "results (predict_loop sc model df stations st) =
     results st @ map (\<lambda>s. station_forecast sc model s (sub_of df s))
                      (filter (\<lambda>s. sub_of df s \<noteq> []) stations)"
  by (induction stations arbitrary: st) (simp_all add: Let_def)

lemma predict_loop_warnings:
  "warnings (predict_loop sc model df stations st) =
     warnings st @ map warning_text (filter (\<lambda>s. sub_of df s = []) stations)"
  by (induction stations arbitrary: st) (simp_all add: Let_def)

section \<open>Properties\<close>

subsection \<open>Feature matrix\<close>

text \<open>
  C1. For every mean feature vector and every scenario, each pollutant column of the
  feature matrix is the station mean times the fixed factor of that pollutant: PM2.5 by
  \<open>1 - (ev + reg) / 200\<close>, PM10 by \<open>1 - (green + reg) / 220\<close>, CO by
  \<open>1 - (capture + ev) / 250\<close>, NO2 by \<open>1 - (reg + ev) / 180\<close>, SO2 by
  \<open>1 - (capture + reg) / 230\<close>, O3 by \<open>1 - green / 200\<close>. For the mean vector
  (50, 40, 10, 5, 20, 30) and the scenario (30, 40, 25, 20) the PM2.5 factor is 0.65 and
  the PM2.5 entry is 32.5 in all six rows.
\<close>

theorem X_future_multipliers:
  "map pm25 (X_future sc m) =
     replicate 6 (pm25 m * (1 - real_of_int (ev_switch sc + emission_reg sc) / 200)) \<and>
   map pm10 (X_future sc m) =
     replicate 6 (pm10 m * (1 - real_of_int (green_area sc + emission_reg sc) / 220)) \<and>
   map co (X_future sc m) =
     replicate 6 (co m * (1 - real_of_int (carbon_capture sc + ev_switch sc) / 250)) \<and>
   map no2 (X_future sc m) =
     replicate 6 (no2 m * (1 - real_of_int (emission_reg sc + ev_switch sc) / 180)) \<and>
   map so2 (X_future sc m) =
     replicate 6 (so2 m * (1 - real_of_int (carbon_capture sc + emission_reg sc) / 230)) \<and>
   map o3 (X_future sc m) =
     replicate 6 (o3 m * (1 - real_of_int (green_area sc) / 200)) \<and>
   pm25_factor default_scenario = 65 / 100 \<and>
   map pm25 (X_future default_scenario sample_means) =
     [65 / 2, 65 / 2, 65 / 2, 65 / 2, 65 / 2, 65 / 2]"
  by (simp add: X_future_rows factor_defs replicate_6)

text \<open>
  C2, as the script has it. No factor is clamped. For slider values (each between 0 and
  100) the factors of PM2.5, PM10, CO, SO2 and O3 are non-negative, and the NO2 factor is
  non-negative when emission regulation plus EV adoption is at most 180. With non-negative
  station means, the PM2.5, PM10, SO2, CO and O3 entries of every row of the feature
  matrix are then non-negative, and so is the NO2 entry when emission regulation plus EV
  adoption is at most 180.
\<close>

theorem factors_nonneg_unclamped:
  assumes "slider_scenario sc"
    and "0 \<le> pm25 m" "0 \<le> pm10 m" "0 \<le> so2 m" "0 \<le> co m" "0 \<le> o3 m" "0 \<le> no2 m"
  shows "0 \<le> pm25_factor sc \<and> 0 \<le> pm10_factor sc \<and> 0 \<le> co_factor sc \<and>
         0 \<le> so2_factor sc \<and> 0 \<le> o3_factor sc \<and>
         list_all (\<lambda>r. 0 \<le> pm25 r \<and> 0 \<le> pm10 r \<and> 0 \<le> so2 r \<and> 0 \<le> co r \<and> 0 \<le> o3 r)
           (X_future sc m) \<and>
         (emission_reg sc + ev_switch sc \<le> 180 \<longrightarrow>
            0 \<le> no2_factor sc \<and> list_all (\<lambda>r. 0 \<le> no2 r) (X_future sc m))"
  using assms factors_lower [OF assms(1)] no2_factor_sign [of sc]
  by (simp add: X_future_rows list_all_iff)

text \<open>
  The hypotheses of \<open>factors_nonneg_unclamped\<close> hold at the slider defaults and the
  sample means, where the NO2 drivers add up to 70.
\<close>

theorem factors_nonneg_unclamped_witness:
  "slider_scenario default_scenario \<and> 0 \<le> pm25 sample_means \<and> 0 \<le> pm10 sample_means \<and>
   0 \<le> so2 sample_means \<and> 0 \<le> co sample_means \<and> 0 \<le> o3 sample_means \<and>
   0 \<le> no2 sample_means \<and>
   emission_reg default_scenario + ev_switch default_scenario \<le> 180 \<and>
   0 \<le> no2_factor default_scenario \<and>
   list_all (\<lambda>r. 0 \<le> pm25 r \<and> 0 \<le> pm10 r \<and> 0 \<le> so2 r \<and> 0 \<le> co r \<and> 0 \<le> o3 r)
     (X_future default_scenario sample_means) \<and>
   list_all (\<lambda>r. 0 \<le> no2 r) (X_future default_scenario sample_means)"
  using factors_nonneg_unclamped [of default_scenario sample_means]
  by (simp add: slider_scenario_def slider_value_def)

text \<open>
  C2 as stated fails: with EV adoption and emission regulation both at 100, which the
  sliders allow, the NO2 factor is \<open>1 - 200 / 180 = - 1 / 9\<close>, and a station mean of 30
  gives an NO2 entry of \<open>- 10 / 3\<close> in every row.
\<close>

theorem no2_factor_negative:
  "slider_scenario strict_scenario \<and>
   0 \<le> no2 sample_means \<and>
   no2_factor strict_scenario = - 1 / 9 \<and>
   map no2 (X_future strict_scenario sample_means) =
     [- 10 / 3, - 10 / 3, - 10 / 3, - 10 / 3, - 10 / 3, - 10 / 3]"
  by (simp add: X_future_rows factor_defs replicate_6 slider_scenario_def slider_value_def)

text \<open>
  C6. For every mean vector and every scenario the feature matrix has one row per future
  year, six in all, and the six rows are the same row: the factors depend on the scenario
  and not on the year.
\<close>

theorem X_future_year_independent:
  "length (X_future sc m) = length future_years \<and> length future_years = 6 \<and>
   X_future sc m = replicate 6 (X_future sc m ! 0) \<and>
   X_future sc m ! 0 = X_future sc m ! 1 \<and> X_future sc m ! 1 = X_future sc m ! 2 \<and>
   X_future sc m ! 2 = X_future sc m ! 3 \<and> X_future sc m ! 3 = X_future sc m ! 4 \<and>
   X_future sc m ! 4 = X_future sc m ! 5"
  by (simp add: X_future_rows length_future_years)

text \<open>
  C7. With all four sliders at 0 every factor is 1, and every row of the feature matrix
  is the station mean vector unchanged.
\<close>

theorem neutral_scenario_identity:
  "pm25_factor neutral_scenario = 1 \<and> pm10_factor neutral_scenario = 1 \<and>
   co_factor neutral_scenario = 1 \<and> no2_factor neutral_scenario = 1 \<and>
   so2_factor neutral_scenario = 1 \<and> o3_factor neutral_scenario = 1 \<and>
   X_future neutral_scenario m = replicate 6 m"
  by (simp add: X_future_rows factor_defs)

subsection \<open>Damping, trajectory and average\<close>



text \<open>
  C5. Every station forecast has six predictions and its \<open>avg_aqi\<close> is their sum divided
  by six, hence within a relative tolerance of \<open>1e-9\<close> of their mean; this holds for each
  row of the results of a run.
\<close>

theorem avg_aqi_is_mean:
  "length (predictions (station_forecast sc model station sub)) = 6 \<and>
   avg_aqi (station_forecast sc model station sub) =
     sum_list (predictions (station_forecast sc model station sub)) / 6 \<and>
   \<bar>avg_aqi (station_forecast sc model station sub) -
      sum_list (predictions (station_forecast sc model station sub)) / 6\<bar>
     \<le> (1 / 10 ^ 9) * \<bar>sum_list (predictions (station_forecast sc model station sub)) / 6\<bar> \<and>
   list_all (\<lambda>r. length (predictions r) = 6 \<and> avg_aqi r = sum_list (predictions r) / 6)
     (results (predict_future_aqi sc model df))"
proof -
  have len: "length (predictions (station_forecast sc model s sb)) = 6" for s sb
    by (rule length_predictions)
  have avg: "avg_aqi (station_forecast sc model s sb) =
      sum_list (predictions (station_forecast sc model s sb)) / 6" for s sb
    by (simp add: avg_aqi_station_forecast mean_def len)
  have "list_all (\<lambda>r. length (predictions r) = 6 \<and> avg_aqi r = sum_list (predictions r) / 6)
     (results (predict_future_aqi sc model df))"
    by (simp add: predict_future_aqi_def predict_loop_results list_all_iff len avg)
  then show ?thesis
    by (simp add: len avg)
qed

text \<open>
  C10. If the raw predictions of a station are non-negative, its six stored predictions
  are one value (the prediction for the common row) times the damping factors, and they
  never increase from 2025 to 2030.
\<close>

theorem trajectory_non_increasing:
  assumes "list_all (\<lambda>p. 0 \<le> p) (base_pred model (X_future sc (mean_features sub)))"
  shows "predictions (station_forecast sc model station sub) =
           map (\<lambda>f. model (X_future sc (mean_features sub) ! 0) * f) (damping 6) \<and>
         sorted_wrt (\<lambda>a b. b \<le> a) (predictions (station_forecast sc model station sub))"
proof -
  have "0 \<le> model (X_future sc (mean_features sub) ! 0)"
    using assms by (simp add: base_pred_rows replicate_6)
  then have "sorted_wrt (\<lambda>a b. b \<le> a) (predictions (station_forecast sc model station sub))"
    by (simp add: predictions_damped damping_6)
  then show ?thesis
    by (simp add: predictions_damped)
qed

text \<open>
  The hypothesis of \<open>trajectory_non_increasing\<close> holds for the one-row table, the slider
  defaults and the summing regressor.
\<close>

theorem trajectory_non_increasing_witness:
  "list_all (\<lambda>p. 0 \<le> p)
     (base_pred sum_model (X_future default_scenario (mean_features one_station_df))) \<and>
   sorted_wrt (\<lambda>a b. b \<le> a)
     (predictions (station_forecast default_scenario sum_model (Some ''DKI1 (Bunderan HI)'')
        one_station_df))"
proof -
  have h: "list_all (\<lambda>p. 0 \<le> p)
     (base_pred sum_model (X_future default_scenario (mean_features one_station_df)))"
    by (simp add: base_pred_def X_future_rows replicate_6 mean_features_def mean_def factor_defs)
  from trajectory_non_increasing [OF h] h show ?thesis
    by blast
qed

subsection \<open>Stations without rows\<close>

text \<open>
  No warning of a run ever names a station: the labels of the loop are the labels of the
  table, so a selection is empty for the missing label only.
\<close>

lemma warnings_only_missing_label:
  "set (warnings (predict_future_aqi sc model df)) \<subseteq> {warning_text None}"
proof -
  have "s = None" if "s \<in> set (unique (map stasiun df))" "sub_of df s = []" for s
    using that sub_of_empty_iff [of s df] by (simp add: set_unique)
  then show ?thesis
    by (auto simp: predict_future_aqi_def predict_loop_warnings)
qed

text \<open>
  C8, on a table whose only row belongs to DKI1. DKI5 is a station of
  \<^verbatim>\<open>station_coords\<close> and has no row, so its selection is empty. The run produces the
  forecast of DKI1 alone and shows no warning: DKI5 is left out of the results without
  the warning of line 68, because the loop of line 65 runs over the labels of the table
  and never reaches a station that has no row.
\<close>

theorem station_without_rows_not_reported:
  "map_of station_coords ''DKI5 (Kebon Jeruk)'' = Some (- 6200 / 1000, 106770 / 1000) \<and>
   sub_of one_station_df (Some ''DKI5 (Kebon Jeruk)'') = [] \<and>
   unique (map stasiun one_station_df) = [Some ''DKI1 (Bunderan HI)''] \<and>
   map r_stasiun (results (predict_future_aqi default_scenario sum_model one_station_df)) =
     [Some ''DKI1 (Bunderan HI)''] \<and>
   warnings (predict_future_aqi default_scenario sum_model one_station_df) = []"
  by (simp add: station_coords_def sub_of_def eq_label_def unique_def predict_future_aqi_def
      Let_def station_forecast_def)

subsection \<open>Marker colour\<close>

text \<open>
  C4. The marker colour is the risk band of the forecast value: green (LOW) exactly below
  50, orange (MODERATE) exactly from 50 up to but excluding 100, red (HIGH) exactly from
  100 on. The three conditions are exhaustive and exclusive, and each boundary value falls
  in the band that starts there.
\<close>

theorem color_bands:
  "(color x = ''green'') = (x < 50) \<and>
   (color x = ''orange'') = (50 \<le> x \<and> x < 100) \<and>
   (color x = ''red'') = (100 \<le> x) \<and>
   color 50 = ''orange'' \<and> color 100 = ''red'' \<and>
   color (49999 / 1000) = ''green'' \<and> color (99999 / 1000) = ''orange''"
  by (simp add: color_def)

end
